theory Spec2Isabelle
  imports Complex_Main
begin

section \<open>Numbers\<close>

text \<open>
  The transformer computes on JavaScript numbers. They are modelled as the reals: every
  arithmetic operation of the source is the exact operation, \<open>Math.PI\<close> is \<open>pi\<close>,
  and \<open>NaN\<close>, the infinities and rounding are outside the model.
\<close>

definition trunc :: "real \<Rightarrow> int" where
  \<comment> \<open>rounding towards zero, the quotient that JavaScript's remainder uses\<close>
  "trunc x = (if 0 \<le> x then \<lfloor>x\<rfloor> else \<lceil>x\<rceil>)"

definition js_rem :: "real \<Rightarrow> real \<Rightarrow> real" where
  \<comment> \<open>\<open>a % b\<close>: the remainder takes the sign of the dividend\<close>
  "js_rem a b = a - b * of_int (trunc (a / b))"

definition atan2 :: "real \<Rightarrow> real \<Rightarrow> real" where
  \<comment> \<open>\<open>Math.atan2(y, x)\<close>, the angle of the point (x, y) in the interval from -pi to pi\<close>
  "atan2 y x =
     (if 0 < x then arctan (y / x)
      else if x < 0 then (if 0 \<le> y then arctan (y / x) + pi else arctan (y / x) - pi)
      else if 0 < y then pi / 2
      else if y < 0 then - (pi / 2)
      else 0)"

definition MAX_VALUE :: real where
  \<comment> \<open>\<open>Number.MAX_VALUE\<close>, the largest finite double\<close>
  "MAX_VALUE = 2 ^ 1024 - 2 ^ 971"

section \<open>Angle snapping\<close>

text \<open>
  The loop of \<open>snapAngle\<close>: the first snapping angle within the tolerance is returned,
  the angle itself when the scan ends.
\<close>

fun snapScan :: "real \<Rightarrow> real \<Rightarrow> real list \<Rightarrow> real" where
  "snapScan angle snapTolerance [] = angle"
| "snapScan angle snapTolerance (s # ss) =
     (if \<bar>angle - s\<bar> \<le> snapTolerance then s else snapScan angle snapTolerance ss)"

text \<open>
  \<open>snapAngle(angle, snapTolerance, snaps?)\<close>. The optional parameter is \<open>None\<close> when it
  is left out; an empty array is truthy in JavaScript, so it passes the guard and the
  loop does not run.
\<close>

definition snapAngle :: "real \<Rightarrow> real \<Rightarrow> real list option \<Rightarrow> real" where
  "snapAngle angle0 snapTolerance snaps =
     (let angle = js_rem angle0 (pi * 2)
      in case snaps of
           None \<Rightarrow> angle
         | Some ss \<Rightarrow>
             if length ss = 1 \<or> snapTolerance = 0 then angle
             else snapScan angle snapTolerance ss)"

section \<open>Points, matrices and rectangles\<close>

text \<open>
  \<open>Point\<close>, \<open>Matrix\<close> and \<open>Rectangle\<close> come from the host library \<open>@pixi/math\<close>.
  Modelled from the spec: the matrix is the 2D affine transform with the six entries
  a, b, c, d, tx, ty; \<open>translate\<close>, \<open>rotate\<close> and \<open>scale\<close> compose the operation after
  the transform already held, \<open>prepend\<close> composes another matrix after it, \<open>apply\<close> maps
  a point forward and \<open>applyInverse\<close> maps it back.
\<close>

record point =
  px :: real
  py :: real

record matrix =
  ma :: real
  mb :: real
  mc :: real
  md :: real
  mtx :: real
  mty :: real

record rect =
  rx :: real
  ry :: real
  width :: real
  height :: real

definition identityM :: matrix where
  "identityM = \<lparr>ma = 1, mb = 0, mc = 0, md = 1, mtx = 0, mty = 0\<rparr>"

definition translateM :: "matrix \<Rightarrow> real \<Rightarrow> real \<Rightarrow> matrix" where
  "translateM m x y = m\<lparr>mtx := mtx m + x, mty := mty m + y\<rparr>"

definition rotateM :: "matrix \<Rightarrow> real \<Rightarrow> matrix" where
  "rotateM m angle =
     \<lparr>ma = ma m * cos angle - mb m * sin angle,
      mb = ma m * sin angle + mb m * cos angle,
      mc = mc m * cos angle - md m * sin angle,
      md = mc m * sin angle + md m * cos angle,
      mtx = mtx m * cos angle - mty m * sin angle,
      mty = mtx m * sin angle + mty m * cos angle\<rparr>"

definition scaleM :: "matrix \<Rightarrow> real \<Rightarrow> real \<Rightarrow> matrix" where
  "scaleM m x y =
     \<lparr>ma = ma m * x, mb = mb m * y, mc = mc m * x, md = md m * y,
      mtx = mtx m * x, mty = mty m * y\<rparr>"

definition prependM :: "matrix \<Rightarrow> matrix \<Rightarrow> matrix" where
  "prependM m n =
     \<lparr>ma = ma m * ma n + mb m * mc n,
      mb = ma m * mb n + mb m * md n,
      mc = mc m * ma n + md m * mc n,
      md = mc m * mb n + md m * md n,
      mtx = mtx m * ma n + mty m * mc n + mtx n,
      mty = mtx m * mb n + mty m * md n + mty n\<rparr>"

definition applyM :: "matrix \<Rightarrow> point \<Rightarrow> point" where
  "applyM m p =
     \<lparr>px = ma m * px p + mc m * py p + mtx m,
      py = mb m * px p + md m * py p + mty m\<rparr>"

definition applyInverseM :: "matrix \<Rightarrow> point \<Rightarrow> point" where
  "applyInverseM m p =
     (let i = 1 / (ma m * md m + mc m * - mb m)
      in \<lparr>px = md m * i * px p + - mc m * i * py p + (mty m * mc m - mtx m * md m) * i,
          py = ma m * i * py p + - mb m * i * px p + (- mty m * ma m + mtx m * mb m) * i\<rparr>)"

section \<open>Oriented bounds\<close>

text \<open>
  \<open>OrientedBounds\<close> lives in the package \<open>@pixi-essentials/bounds\<close>.
  Modelled from the spec: an axis-aligned rectangle \<open>innerBounds\<close> and a \<open>rotation\<close>;
  the centre and the four corners are functions of these two fields, the corners being
  the rectangle's corners rotated by \<open>rotation\<close> about its centre; writing the centre
  moves the rectangle and keeps its size.
\<close>

record oriented_bounds =
  innerBounds :: rect
  rotation :: real

definition center :: "oriented_bounds \<Rightarrow> point" where
  "center b =
     \<lparr>px = rx (innerBounds b) + width (innerBounds b) / 2,
      py = ry (innerBounds b) + height (innerBounds b) / 2\<rparr>"

definition hullMatrix :: "oriented_bounds \<Rightarrow> matrix" where
  "hullMatrix b =
     translateM
       (rotateM (translateM identityM (- px (center b)) (- py (center b))) (rotation b))
       (px (center b)) (py (center b))"

definition topLeft :: "oriented_bounds \<Rightarrow> point" where
  "topLeft b = applyM (hullMatrix b) \<lparr>px = rx (innerBounds b), py = ry (innerBounds b)\<rparr>"

definition topRight :: "oriented_bounds \<Rightarrow> point" where
  "topRight b =
     applyM (hullMatrix b)
       \<lparr>px = rx (innerBounds b) + width (innerBounds b), py = ry (innerBounds b)\<rparr>"

definition bottomRight :: "oriented_bounds \<Rightarrow> point" where
  "bottomRight b =
     applyM (hullMatrix b)
       \<lparr>px = rx (innerBounds b) + width (innerBounds b),
        py = ry (innerBounds b) + height (innerBounds b)\<rparr>"

definition bottomLeft :: "oriented_bounds \<Rightarrow> point" where
  "bottomLeft b =
     applyM (hullMatrix b)
       \<lparr>px = rx (innerBounds b), py = ry (innerBounds b) + height (innerBounds b)\<rparr>"

definition setCenter :: "oriented_bounds \<Rightarrow> point \<Rightarrow> oriented_bounds" where
  "setCenter b c =
     b\<lparr>innerBounds := (innerBounds b)
          \<lparr>rx := px c - width (innerBounds b) / 2,
           ry := py c - height (innerBounds b) / 2\<rparr>\<rparr>"

section \<open>Display objects\<close>

text \<open>
  A group member belongs to the host scene graph.
  Modelled from the spec: the transformer reads a member's local bounds and its world
  transform, and \<open>multiplyTransform\<close> (\<open>utils/multiplyTransform\<close>) left-multiplies a
  matrix onto the member's transform in world space.
\<close>

record display_object =
  localBounds :: rect
  worldTransform :: matrix

definition multiplyTransform :: "display_object \<Rightarrow> matrix \<Rightarrow> display_object" where
  "multiplyTransform obj delta = obj\<lparr>worldTransform := prependM (worldTransform obj) delta\<rparr>"

section \<open>Bounds of a group\<close>

definition calculateTransformedCorners :: "display_object \<Rightarrow> matrix \<Rightarrow> point list" where
  "calculateTransformedCorners displayObject transform =
     (let lb = localBounds displayObject
      in [applyM transform \<lparr>px = rx lb, py = ry lb\<rparr>,
          applyM transform \<lparr>px = rx lb + width lb, py = ry lb\<rparr>,
          applyM transform \<lparr>px = rx lb + width lb, py = ry lb + height lb\<rparr>,
          applyM transform \<lparr>px = rx lb, py = ry lb + height lb\<rparr>])"

text \<open>The first loop of \<open>calculateGroupOrientedBounds\<close>: four corners per member.\<close>

fun groupFrames :: "display_object list \<Rightarrow> point list" where
  "groupFrames [] = []"
| "groupFrames (displayObject # rest) =
     calculateTransformedCorners displayObject (worldTransform displayObject) @ groupFrames rest"

text \<open>
  The second loop: every frame vertex is unrotated and folded into the running
  (minX, minY, maxX, maxY).
\<close>

fun unrotateMinMax ::
  "matrix \<Rightarrow> point list \<Rightarrow> real \<times> real \<times> real \<times> real \<Rightarrow> real \<times> real \<times> real \<times> real" where
  "unrotateMinMax m [] acc = acc"
| "unrotateMinMax m (frame # frames) (minX, minY, maxX, maxY) =
     (let point = applyM m frame; x = px point; y = py point
      in unrotateMinMax m frames
           (if x < minX then x else minX, if y < minY then y else minY,
            if x > maxX then x else maxX, if y > maxY then y else maxY))"

text \<open>
  \<open>calculateGroupOrientedBounds(group, rotation, bounds, skipUpdate)\<close>. Every field of
  \<open>bounds\<close> is overwritten, so the model returns the bounds; \<open>skipUpdate\<close> only decides
  whether the host refreshes the world transforms that the model reads as they are.
  The model is the function on a group with at least one member and finite coordinates.
  On the empty group both loops are skipped and the sentinels stay untouched; the source
  then subtracts \<open>Number.MAX_VALUE\<close> from \<open>-Number.MAX_VALUE\<close>, which overflows in doubles
  to minus infinity, and the centre becomes \<open>NaN\<close>. The reals have neither value, so
  nothing is stated about the empty group.
\<close>

definition calculateGroupOrientedBounds :: "display_object list \<Rightarrow> real \<Rightarrow> oriented_bounds" where
  "calculateGroupOrientedBounds grp rot =
     (let frames = groupFrames grp;
          m = rotateM identityM (- rot);
          (minX, minY, maxX, maxY) =
             unrotateMinMax m frames (MAX_VALUE, MAX_VALUE, - MAX_VALUE, - MAX_VALUE);
          bounds = \<lparr>innerBounds = \<lparr>rx = minX, ry = minY,
                                   width = maxX - minX, height = maxY - minY\<rparr>,
                    rotation = rot\<rparr>
      in setCenter bounds (applyInverseM m (center bounds)))"

section \<open>The transformer\<close>

datatype rotate_handle = Rotator

datatype scale_handle =
    TopLeft | TopCenter | TopRight
  | MiddleLeft | MiddleCenter | MiddleRight
  | BottomLeft | BottomCenter | BottomRight

datatype skew_handle = SkewHorizontal | SkewVertical

datatype handle = RotateH rotate_handle | ScaleH scale_handle | SkewH skew_handle

fun SCALE_COMPONENTS :: "scale_handle \<Rightarrow> int \<times> int" where
  "SCALE_COMPONENTS TopLeft = (-1, -1)"
| "SCALE_COMPONENTS TopCenter = (0, -1)"
| "SCALE_COMPONENTS TopRight = (1, -1)"
| "SCALE_COMPONENTS MiddleLeft = (-1, 0)"
| "SCALE_COMPONENTS MiddleCenter = (0, 0)"
| "SCALE_COMPONENTS MiddleRight = (1, 0)"
| "SCALE_COMPONENTS BottomLeft = (-1, 1)"
| "SCALE_COMPONENTS BottomCenter = (0, 1)"
| "SCALE_COMPONENTS BottomRight = (1, 1)"

text \<open>
  The fields of \<open>Transformer\<close> that the gestures read and write. \<open>handles\<close> gives the
  position of each handle, as \<open>drawHandles\<close> last left it.
\<close>

record transformer =
  group :: "display_object list"
  centeredScaling :: bool
  rotationSnaps :: "real list option"
  rotationSnapTolerance :: real
  skewSnaps :: "real list option"
  skewSnapTolerance :: real
  transientGroupTilt :: bool
  groupBounds :: oriented_bounds
  handles :: "handle \<Rightarrow> point"
  skewX :: real
  skewY :: real

text \<open>\<open>updateGroupBounds(rotation = this.groupBounds.rotation)\<close>\<close>

definition updateGroupBounds :: "transformer \<Rightarrow> real option \<Rightarrow> transformer" where
  "updateGroupBounds t r =
     (let rot = (case r of None \<Rightarrow> rotation (groupBounds t) | Some v \<Rightarrow> v)
      in t\<lparr>groupBounds := calculateGroupOrientedBounds (group t) rot\<rparr>)"

text \<open>\<open>prependTransform(delta, skipUpdate = false)\<close>\<close>

definition prependTransform :: "transformer \<Rightarrow> matrix \<Rightarrow> bool \<Rightarrow> transformer" where
  "prependTransform t delta skipUpdate =
     (let t' = t\<lparr>group := map (\<lambda>obj. multiplyTransform obj delta) (group t)\<rparr>
      in if \<not> skipUpdate then updateGroupBounds t' None else t')"

subsection \<open>Rotation\<close>

text \<open>The snapped \<open>newRotation\<close> of \<open>rotateGroup\<close>.\<close>

definition rotateNewRotation :: "transformer \<Rightarrow> rotate_handle \<Rightarrow> point \<Rightarrow> real" where
  "rotateNewRotation t h pointerPosition =
     (let bounds = groupBounds t;
          origin = handles t (RotateH h);
          destination = pointerPosition;
          rOrigin = center bounds;
          orgAngle = atan2 (py origin - py rOrigin) (px origin - px rOrigin);
          dstAngle = atan2 (py destination - py rOrigin) (px destination - px rOrigin);
          deltaAngle = dstAngle - orgAngle;
          newRotation = rotation (groupBounds t) + deltaAngle
      in snapAngle newRotation (rotationSnapTolerance t) (rotationSnaps t))"

text \<open>The \<open>deltaAngle\<close> recomputed after the snap, and the matrix built from it.\<close>

definition rotateDeltaAngle :: "transformer \<Rightarrow> rotate_handle \<Rightarrow> point \<Rightarrow> real" where
  "rotateDeltaAngle t h pointerPosition =
     rotateNewRotation t h pointerPosition - rotation (groupBounds t)"

definition rotateMatrix :: "transformer \<Rightarrow> rotate_handle \<Rightarrow> point \<Rightarrow> matrix" where
  "rotateMatrix t h pointerPosition =
     (let rOrigin = center (groupBounds t);
          deltaAngle = rotateDeltaAngle t h pointerPosition
      in translateM
           (rotateM (translateM identityM (- px rOrigin) (- py rOrigin)) deltaAngle)
           (px rOrigin) (py rOrigin))"

definition rotateGroup :: "transformer \<Rightarrow> rotate_handle \<Rightarrow> point \<Rightarrow> transformer" where
  "rotateGroup t h pointerPosition =
     (let newRotation = rotateNewRotation t h pointerPosition;
          deltaAngle = rotateDeltaAngle t h pointerPosition;
          m = rotateMatrix t h pointerPosition;
          t1 = prependTransform t m True;
          t2 = updateGroupBounds t1 (Some newRotation)
      in t2\<lparr>skewX := skewX t2 + deltaAngle, skewY := skewY t2 + deltaAngle\<rparr>)"

subsection \<open>Scaling\<close>

text \<open>
  One block of \<open>scaleGroup\<close>: the scaling along one axis of the bounds about an origin,
  chained onto the matrix built so far.
\<close>

definition scaleAbout :: "matrix \<Rightarrow> point \<Rightarrow> real \<Rightarrow> real \<Rightarrow> real \<Rightarrow> matrix" where
  "scaleAbout m origin angle sx sy =
     translateM
       (rotateM (scaleM (rotateM (translateM m (- px origin) (- py origin)) (- angle)) sx sy)
          angle)
       (px origin) (py origin)"

text \<open>The matrix that \<open>scaleGroup\<close> builds.\<close>

definition scaleMatrix :: "transformer \<Rightarrow> scale_handle \<Rightarrow> point \<Rightarrow> matrix" where
  "scaleMatrix t h pointerPosition =
     (let xDir = fst (SCALE_COMPONENTS h);
          yDir = snd (SCALE_COMPONENTS h);
          bounds = groupBounds t;
          angle = rotation bounds;
          ib = innerBounds bounds;
          dx = px pointerPosition - px (handles t (ScaleH h));
          dy = py pointerPosition - py (handles t (ScaleH h));
          uxvec = (px (topRight bounds) - px (topLeft bounds)) / width ib;
          uyvec = (py (topRight bounds) - py (topLeft bounds)) / width ib;
          vxvec = (px (bottomLeft bounds) - px (topLeft bounds)) / height ib;
          vyvec = (py (bottomLeft bounds) - py (topLeft bounds)) / height ib;
          du = dx * uxvec + dy * uyvec;
          dv = dx * vxvec + dy * vyvec;
          sx = 1 + du * of_int xDir / width ib;
          sy = 1 + dv * of_int yDir / height ib;
          m0 = identityM;
          m1 = (if xDir \<noteq> 0
                then (let hsOrigin =
                            (if \<not> centeredScaling t
                             then (if xDir = 1 then topLeft bounds else topRight bounds)
                             else center bounds)
                      in scaleAbout m0 hsOrigin angle sx 1)
                else m0);
          m2 = (if yDir \<noteq> 0
                then (let vsOrigin =
                            (if \<not> centeredScaling t
                             then (if yDir = 1 then topLeft bounds else bottomLeft bounds)
                             else center bounds)
                      in scaleAbout m1 vsOrigin angle 1 sy)
                else m1)
      in m2)"

definition scaleGroup :: "transformer \<Rightarrow> scale_handle \<Rightarrow> point \<Rightarrow> transformer" where
  "scaleGroup t h pointerPosition = prependTransform t (scaleMatrix t h pointerPosition) False"

subsection \<open>Skewing\<close>

text \<open>
  \<open>createHorizontalSkew\<close> and \<open>createVerticalSkew\<close> (\<open>utils/skewTransform\<close>) build the
  shear matrix of an angle; the gesture takes them as the parameters \<open>hskew\<close> and
  \<open>vskew\<close>.
\<close>

text \<open>The skew angle that \<open>skewGroup\<close> stores for the dragged handle.\<close>

definition skewNewSkew :: "transformer \<Rightarrow> skew_handle \<Rightarrow> point \<Rightarrow> real" where
  "skewNewSkew t h pointerPosition =
     (let dst = pointerPosition;
          sOrigin = center (groupBounds t)
      in case h of
           SkewHorizontal \<Rightarrow>
             snapAngle (atan2 (py dst - py sOrigin) (px dst - px sOrigin))
               (skewSnapTolerance t) (skewSnaps t)
         | SkewVertical \<Rightarrow>
             snapAngle (atan2 (py dst - py sOrigin) (px dst - px sOrigin) - pi / 2)
               (skewSnapTolerance t) (skewSnaps t))"

definition skewMatrix ::
  "(real \<Rightarrow> matrix) \<Rightarrow> (real \<Rightarrow> matrix) \<Rightarrow> transformer \<Rightarrow> skew_handle \<Rightarrow> point \<Rightarrow> matrix" where
  "skewMatrix hskew vskew t h pointerPosition =
     (let sOrigin = center (groupBounds t);
          m0 = translateM identityM (- px sOrigin) (- py sOrigin);
          newSkew = skewNewSkew t h pointerPosition;
          m1 = (case h of
                  SkewHorizontal \<Rightarrow>
                    (let oldSkew = skewX t
                     in prependM (prependM m0 (vskew (- oldSkew))) (vskew newSkew))
                | SkewVertical \<Rightarrow>
                    (let oldSkew = skewY t
                     in prependM (prependM m0 (hskew oldSkew)) (hskew (- newSkew))))
      in translateM m1 (px sOrigin) (py sOrigin))"

definition skewGroup ::
  "(real \<Rightarrow> matrix) \<Rightarrow> (real \<Rightarrow> matrix) \<Rightarrow> transformer \<Rightarrow> skew_handle \<Rightarrow> point \<Rightarrow> transformer" where
  "skewGroup hskew vskew t h pointerPosition =
     (let newSkew = skewNewSkew t h pointerPosition;
          m = skewMatrix hskew vskew t h pointerPosition;
          rot0 = rotation (groupBounds t);
          (t1, rot) = (case h of
                         SkewHorizontal \<Rightarrow> (t\<lparr>skewX := newSkew\<rparr>, rot0)
                       | SkewVertical \<Rightarrow> (t\<lparr>skewY := newSkew\<rparr>, rot0 - (newSkew - skewY t)));
          t2 = prependTransform t1 m True
      in updateGroupBounds t2 (Some rot))"

subsection \<open>Commit\<close>

definition commitGroup :: "transformer \<Rightarrow> transformer" where
  "commitGroup t =
     (if transientGroupTilt t \<noteq> False \<and> length (group t) > 1
      then updateGroupBounds t (Some 0)
      else t)"

subsection \<open>Handle positions\<close>

text \<open>Where \<open>drawHandles\<close> puts the nine scale handles on the bounds.\<close>

fun scaleHandlePosition :: "oriented_bounds \<Rightarrow> scale_handle \<Rightarrow> point" where
  "scaleHandlePosition b TopLeft = topLeft b"
| "scaleHandlePosition b TopCenter =
     \<lparr>px = (px (topLeft b) + px (topRight b)) / 2, py = (py (topLeft b) + py (topRight b)) / 2\<rparr>"
| "scaleHandlePosition b TopRight = topRight b"
| "scaleHandlePosition b MiddleLeft =
     \<lparr>px = (px (topLeft b) + px (bottomLeft b)) / 2,
      py = (py (topLeft b) + py (bottomLeft b)) / 2\<rparr>"
| "scaleHandlePosition b MiddleCenter =
     \<lparr>px = (px (topLeft b) + px (bottomRight b)) / 2,
      py = (py (topLeft b) + py (bottomRight b)) / 2\<rparr>"
| "scaleHandlePosition b MiddleRight =
     \<lparr>px = (px (topRight b) + px (bottomRight b)) / 2,
      py = (py (topRight b) + py (bottomRight b)) / 2\<rparr>"
| "scaleHandlePosition b BottomLeft = bottomLeft b"
| "scaleHandlePosition b BottomCenter =
     \<lparr>px = (px (bottomLeft b) + px (bottomRight b)) / 2,
      py = (py (bottomLeft b) + py (bottomRight b)) / 2\<rparr>"
| "scaleHandlePosition b BottomRight = bottomRight b"

text \<open>The handle across the bounds from a scale handle.\<close>

fun oppositeHandle :: "scale_handle \<Rightarrow> scale_handle" where
  "oppositeHandle TopLeft = BottomRight"
| "oppositeHandle TopCenter = BottomCenter"
| "oppositeHandle TopRight = BottomLeft"
| "oppositeHandle MiddleLeft = MiddleRight"
| "oppositeHandle MiddleCenter = MiddleCenter"
| "oppositeHandle MiddleRight = MiddleLeft"
| "oppositeHandle BottomLeft = TopRight"
| "oppositeHandle BottomCenter = TopCenter"
| "oppositeHandle BottomRight = TopLeft"

text \<open>The point that a scale gesture is to leave in place.\<close>

definition scalePivot :: "transformer \<Rightarrow> scale_handle \<Rightarrow> point" where
  "scalePivot t h =
     (if centeredScaling t then center (groupBounds t)
      else scaleHandlePosition (groupBounds t) (oppositeHandle h))"

subsection \<open>Defaults and a sample transformer\<close>

definition DEFAULT_ROTATION_SNAPS :: "real list" where
  "DEFAULT_ROTATION_SNAPS =
     [pi / 4, pi / 2, pi * 3 / 4, pi, - pi / 4, - pi / 2, - pi * 3 / 4, - pi]"

definition DEFAULT_ROTATION_SNAP_TOLERANCE :: real where
  "DEFAULT_ROTATION_SNAP_TOLERANCE = pi / 90"

definition DEFAULT_SKEW_SNAPS :: "real list" where
  "DEFAULT_SKEW_SNAPS = [pi / 4, - pi / 4]"

definition DEFAULT_SKEW_SNAP_TOLERANCE :: real where
  "DEFAULT_SKEW_SNAP_TOLERANCE = pi / 90"

text \<open>
  A transformer as the constructor leaves it with the default options, around two
  untransformed rectangles of 100 by 50, the bounds tilted by one radian.
\<close>

definition sampleObject :: display_object where
  "sampleObject =
     \<lparr>localBounds = \<lparr>rx = 0, ry = 0, width = 100, height = 50\<rparr>, worldTransform = identityM\<rparr>"

definition sampleTransformer :: transformer where
  "sampleTransformer =
     \<lparr>group = [sampleObject, sampleObject],
      centeredScaling = False,
      rotationSnaps = Some DEFAULT_ROTATION_SNAPS,
      rotationSnapTolerance = DEFAULT_ROTATION_SNAP_TOLERANCE,
      skewSnaps = Some DEFAULT_SKEW_SNAPS,
      skewSnapTolerance = DEFAULT_SKEW_SNAP_TOLERANCE,
      transientGroupTilt = True,
      groupBounds = \<lparr>innerBounds = \<lparr>rx = 0, ry = 0, width = 100, height = 50\<rparr>, rotation = 1\<rparr>,
      handles = (\<lambda>h. \<lparr>px = 0, py = 0\<rparr>),
      skewX = 0,
      skewY = 0\<rparr>"

text \<open>The same transformer with upright bounds and the rotator handle straight above the centre.\<close>

definition uprightTransformer :: transformer where
  "uprightTransformer =
     sampleTransformer
       \<lparr>groupBounds := \<lparr>innerBounds = \<lparr>rx = 0, ry = 0, width = 100, height = 50\<rparr>,
                         rotation = 0\<rparr>,
        handles := (\<lambda>h. \<lparr>px = 50, py = - 7\<rparr>)\<rparr>"

text \<open>Sample shear builders for the parameters of \<open>skewGroup\<close>: the shears by the tangent.\<close>

definition tangentHorizontalSkew :: "real \<Rightarrow> matrix" where
  "tangentHorizontalSkew angle = identityM\<lparr>mc := tan angle\<rparr>"

definition tangentVerticalSkew :: "real \<Rightarrow> matrix" where
  "tangentVerticalSkew angle = identityM\<lparr>mb := tan angle\<rparr>"

section \<open>Properties of the normalisation and of the scan\<close>

lemma trunc_small: "\<bar>x\<bar> < 1 \<Longrightarrow> trunc x = 0"
  unfolding trunc_def by (auto simp: floor_eq_iff ceiling_eq_iff)

lemma js_rem_small: "\<bar>a\<bar> < b \<Longrightarrow> js_rem a b = a"
proof -
  assume h: "\<bar>a\<bar> < b"
  then have b: "0 < b" by linarith
  have "\<bar>a / b\<bar> < 1" using h b by simp
  then have "trunc (a / b) = 0" by (rule trunc_small)
  then show ?thesis by (simp add: js_rem_def)
qed

lemma trunc_bounds: "\<bar>x - of_int (trunc x)\<bar> < 1"
  unfolding trunc_def by (auto simp: abs_less_iff) linarith+

lemma js_rem_bound:
  assumes "0 < b"
  shows "\<bar>js_rem a b\<bar> < b"
proof -
  have "js_rem a b = b * (a / b - of_int (trunc (a / b)))"
    using assms by (simp add: js_rem_def right_diff_distrib)
  then have "\<bar>js_rem a b\<bar> = b * \<bar>a / b - of_int (trunc (a / b))\<bar>"
    using assms by (simp add: abs_mult)
  also have "\<dots> < b * 1"
    using assms trunc_bounds [of "a / b"] by (intro mult_strict_left_mono) auto
  finally show ?thesis by simp
qed

lemma two_pi_pos: "0 < pi * 2"
  by simp

lemma js_rem_idem: "js_rem (js_rem a (pi * 2)) (pi * 2) = js_rem a (pi * 2)"
  by (rule js_rem_small) (rule js_rem_bound [OF two_pi_pos])

lemma snapScan_find:
  "snapScan a tol ss = (case find (\<lambda>s. \<bar>a - s\<bar> \<le> tol) ss of None \<Rightarrow> a | Some s \<Rightarrow> s)"
  by (induction ss) auto

lemma snapScan_cases:
  "snapScan a tol ss = a \<or> (snapScan a tol ss \<in> set ss \<and> \<bar>a - snapScan a tol ss\<bar> \<le> tol)"
  by (induction ss) auto

lemma snapScan_no_match:
  "\<forall>s\<in>set ss. \<not> \<bar>a - s\<bar> \<le> tol \<Longrightarrow> snapScan a tol ss = a"
  by (induction ss) auto

lemma snapScan_self_or_match:
  "snapScan a tol ss \<noteq> a \<Longrightarrow> \<exists>s\<in>set ss. \<bar>a - s\<bar> \<le> tol"
  using snapScan_no_match by blast

lemma js_rem_mult: "\<exists>k::int. a = js_rem a b + of_int k * b"
  unfolding js_rem_def by (rule exI [of _ "trunc (a / b)"]) simp

section \<open>Claims about angle snapping\<close>

text \<open>
  C5: \<open>snapAngle\<close> first reduces the angle modulo 2 pi into the open interval from -2 pi
  to 2 pi. Without a snap list, with an empty one, with exactly one entry, or with a zero
  tolerance it returns the reduced angle. Otherwise it returns the first snap value of the
  list, in list order, whose distance from the reduced angle is at most the tolerance,
  and the reduced angle when there is none.
\<close>

theorem snapAngle_scan_spec:
  "- (2 * pi) < js_rem a (pi * 2) \<and> js_rem a (pi * 2) < 2 * pi
   \<and> (\<exists>k::int. a = js_rem a (pi * 2) + of_int k * (pi * 2))
   \<and> snapAngle a tol None = js_rem a (pi * 2)
   \<and> (ss = [] \<or> length ss = 1 \<or> tol = 0 \<longrightarrow> snapAngle a tol (Some ss) = js_rem a (pi * 2))
   \<and> (length ss \<noteq> 1 \<and> tol \<noteq> 0 \<longrightarrow>
        snapAngle a tol (Some ss) =
          (case find (\<lambda>s. \<bar>js_rem a (pi * 2) - s\<bar> \<le> tol) ss of
             Some s \<Rightarrow> s
           | None \<Rightarrow> js_rem a (pi * 2)))"
proof -
  have bound: "\<bar>js_rem a (pi * 2)\<bar> < pi * 2"
    by (rule js_rem_bound [OF two_pi_pos])
  have range: "- (2 * pi) < js_rem a (pi * 2) \<and> js_rem a (pi * 2) < 2 * pi"
    using bound by (simp add: abs_less_iff mult.commute)
  have guard: "ss = [] \<or> length ss = 1 \<or> tol = 0 \<longrightarrow> snapAngle a tol (Some ss) = js_rem a (pi * 2)"
    by (auto simp: snapAngle_def Let_def)
  have scan: "length ss \<noteq> 1 \<and> tol \<noteq> 0 \<longrightarrow>
        snapAngle a tol (Some ss) =
          (case find (\<lambda>s. \<bar>js_rem a (pi * 2) - s\<bar> \<le> tol) ss of
             Some s \<Rightarrow> s
           | None \<Rightarrow> js_rem a (pi * 2))"
    by (simp add: snapAngle_def Let_def snapScan_find)
  have none: "snapAngle a tol None = js_rem a (pi * 2)"
    by (simp add: snapAngle_def)
  show ?thesis
    using range js_rem_mult [of a "pi * 2"] none guard scan by blast
qed

text \<open>Angles below a full turn are their own reduction.\<close>

lemma half_norm: "js_rem (1 / 2) (pi * 2) = 1 / 2"
  using pi_ge_two by (intro js_rem_small) simp

lemma three_half_norm: "js_rem (3 / 2) (pi * 2) = 3 / 2"
  using pi_ge_two by (intro js_rem_small) simp

lemma one_norm: "js_rem 1 (pi * 2) = 1"
  using pi_ge_two by (intro js_rem_small) simp

theorem snapAngle_scan_spec_witness:
  "length [5, 0, 1 / 4 :: real] \<noteq> 1 \<and> (1 :: real) \<noteq> 0
   \<and> snapAngle (1 / 2) 1 (Some [5, 0, 1 / 4]) = 0
   \<and> length [0 :: real] = 1
   \<and> snapAngle (1 / 2) 1 (Some [0]) = 1 / 2"
  using snapAngle_scan_spec [of "1 / 2" 1 "[5, 0, 1 / 4]"]
    snapAngle_scan_spec [of "1 / 2" 1 "[0]"]
  by (simp add: half_norm)

text \<open>
  C3, as stated, fails: with the single snap value 0 and tolerance 1 the angle 1/2 is
  within the tolerance of the snap value, and \<open>snapAngle\<close> returns 1/2.
\<close>

theorem snapAngle_singleton_counterexample:
  "0 < (1 :: real) \<and> \<bar>js_rem (1 / 2) (pi * 2) - 0\<bar> \<le> 1
   \<and> snapAngle (1 / 2) 1 (Some [0]) \<noteq> 0"
  by (simp add: snapAngle_def half_norm)

text \<open>
  C3, amended: for a positive tolerance and a snap value \<open>s\<close> within the tolerance of the
  reduced angle, the one-entry list \<open>[s]\<close> is caught by the guard and the reduced angle
  comes back unchanged; a list that starts with \<open>s\<close> and has at least one more entry
  gives exactly \<open>s\<close>.
\<close>

theorem snapAngle_singleton_amended:
  "0 < tol \<Longrightarrow> \<bar>js_rem a (pi * 2) - s\<bar> \<le> tol \<Longrightarrow>
     snapAngle a tol (Some [s]) = js_rem a (pi * 2)
     \<and> (ss \<noteq> [] \<longrightarrow> snapAngle a tol (Some (s # ss)) = s)"
  by (simp add: snapAngle_def)

theorem snapAngle_singleton_amended_witness:
  "0 < (1 :: real) \<and> \<bar>js_rem (1 / 2) (pi * 2) - 0\<bar> \<le> 1
   \<and> snapAngle (1 / 2) 1 (Some [0]) = 1 / 2
   \<and> snapAngle (1 / 2) 1 (Some [0, 0]) = 0"
proof -
  have h1: "0 < (1 :: real)" by simp
  have h2: "\<bar>js_rem (1 / 2) (pi * 2) - 0\<bar> \<le> 1" by (simp add: half_norm)
  show ?thesis
    using h1 h2 snapAngle_singleton_amended [OF h1 h2, of "[0]"] by (simp add: half_norm)
qed

text \<open>
  C4, as stated, fails: with the snap list [0, 1] and tolerance 1 the angle 3/2 snaps to 1,
  and 1 snaps to 0, the earlier entry of the list.
\<close>

theorem snapAngle_idempotent_counterexample:
  "snapAngle (snapAngle (3 / 2) 1 (Some [0, 1])) 1 (Some [0, 1])
     \<noteq> snapAngle (3 / 2) 1 (Some [0, 1])"
  by (simp add: snapAngle_def three_half_norm one_norm)

lemma snapScan_fixed:
  "r \<in> set ss \<Longrightarrow> 0 \<le> tol \<Longrightarrow> \<forall>s\<in>set ss. \<forall>u\<in>set ss. s \<noteq> u \<longrightarrow> tol < \<bar>s - u\<bar>
     \<Longrightarrow> snapScan r tol ss = r"
proof (induction ss)
  case Nil
  then show ?case by simp
next
  case (Cons s ss)
  show ?case
  proof (cases "\<bar>r - s\<bar> \<le> tol")
    case True
    have "r = s"
    proof (rule ccontr)
      assume "r \<noteq> s"
      then have "tol < \<bar>r - s\<bar>" using Cons.prems by simp
      then show False using True by simp
    qed
    then show ?thesis using True by simp
  next
    case False
    then have "r \<noteq> s" using Cons.prems(2) by auto
    then have "r \<in> set ss" using Cons.prems(1) by simp
    then have "snapScan r tol ss = r" using Cons.IH Cons.prems by simp
    then show ?thesis using False by simp
  qed
qed

text \<open>
  C4, amended: snapping is idempotent when every snap value lies strictly between -2 pi
  and 2 pi and any two different snap values are more than the tolerance apart.
\<close>

theorem snapAngle_idempotent_amended:
  assumes inrange: "\<forall>s\<in>set ss. \<bar>s\<bar> < pi * 2"
    and apart: "\<forall>s\<in>set ss. \<forall>u\<in>set ss. s \<noteq> u \<longrightarrow> tol < \<bar>s - u\<bar>"
  shows "snapAngle (snapAngle x tol (Some ss)) tol (Some ss) = snapAngle x tol (Some ss)"
proof (cases "length ss = 1 \<or> tol = 0")
  case True
  then show ?thesis by (auto simp: snapAngle_def js_rem_idem)
next
  case False
  let ?n = "js_rem x (pi * 2)"
  let ?r = "snapScan ?n tol ss"
  have res: "snapAngle x tol (Some ss) = ?r" using False by (simp add: snapAngle_def)
  have again: "snapAngle ?r tol (Some ss) = snapScan (js_rem ?r (pi * 2)) tol ss"
    using False by (simp add: snapAngle_def)
  consider (same) "?r = ?n" | (snap) "?r \<in> set ss" "\<bar>?n - ?r\<bar> \<le> tol"
    using snapScan_cases [of ?n tol ss] by blast
  then have "snapScan (js_rem ?r (pi * 2)) tol ss = ?r"
  proof cases
    case same
    then show ?thesis by (simp add: js_rem_idem)
  next
    case snap
    have "js_rem ?r (pi * 2) = ?r" using inrange snap(1) by (intro js_rem_small) blast
    moreover have "0 \<le> tol" using snap(2) by linarith
    ultimately show ?thesis using snapScan_fixed [OF snap(1) _ apart] by simp
  qed
  then show ?thesis using res again by simp
qed

theorem snapAngle_idempotent_amended_witness:
  "\<bar>0 :: real\<bar> < pi * 2 \<and> \<bar>1 :: real\<bar> < pi * 2 \<and> 1 / 4 < \<bar>0 - 1 :: real\<bar>
   \<and> snapAngle (3 / 2) (1 / 4) (Some [0, 1]) = 3 / 2
   \<and> snapAngle (5 / 4) (1 / 4) (Some [0, 1]) = 1
   \<and> snapAngle (snapAngle (3 / 2) (1 / 4) (Some [0, 1])) (1 / 4) (Some [0, 1])
       = snapAngle (3 / 2) (1 / 4) (Some [0, 1])
   \<and> snapAngle (snapAngle (5 / 4) (1 / 4) (Some [0, 1])) (1 / 4) (Some [0, 1])
       = snapAngle (5 / 4) (1 / 4) (Some [0, 1])"
proof -
  have h1: "\<forall>s\<in>set [0, 1 :: real]. \<bar>s\<bar> < pi * 2" using pi_ge_two by simp
  have h2: "\<forall>s\<in>set [0, 1 :: real]. \<forall>u\<in>set [0, 1]. s \<noteq> u \<longrightarrow> 1 / 4 < \<bar>s - u\<bar>" by simp
  have n: "js_rem (5 / 4) (pi * 2) = 5 / 4"
    using pi_ge_two by (intro js_rem_small) simp
  have v: "snapAngle (3 / 2) (1 / 4) (Some [0, 1]) = 3 / 2"
    by (simp add: snapAngle_def three_half_norm)
  have w: "snapAngle (5 / 4) (1 / 4) (Some [0, 1]) = 1"
    by (simp add: snapAngle_def n)
  have b: "\<bar>0 :: real\<bar> < pi * 2 \<and> \<bar>1 :: real\<bar> < pi * 2 \<and> 1 / 4 < \<bar>0 - 1 :: real\<bar>"
    using pi_ge_two by simp
  show ?thesis
    using b v w snapAngle_idempotent_amended [OF h1 h2, of "3 / 2"]
      snapAngle_idempotent_amended [OF h1 h2, of "5 / 4"]
    by blast
qed

section \<open>Matrices act by composition\<close>

lemma applyM_identity: "applyM identityM p = p"
  by (simp add: applyM_def identityM_def)

lemma applyM_translate:
  "applyM (translateM m x y) p = \<lparr>px = px (applyM m p) + x, py = py (applyM m p) + y\<rparr>"
  by (simp add: applyM_def translateM_def)

lemma applyM_rotate:
  "applyM (rotateM m a) p =
     \<lparr>px = px (applyM m p) * cos a - py (applyM m p) * sin a,
      py = px (applyM m p) * sin a + py (applyM m p) * cos a\<rparr>"
  by (simp add: applyM_def rotateM_def algebra_simps)

lemma applyM_scale:
  "applyM (scaleM m x y) p = \<lparr>px = px (applyM m p) * x, py = py (applyM m p) * y\<rparr>"
  by (simp add: applyM_def scaleM_def algebra_simps)

lemma applyM_prepend: "applyM (prependM m n) p = applyM n (applyM m p)"
  by (simp add: applyM_def prependM_def algebra_simps)

lemma prependM_identity: "prependM m identityM = m"
  by (simp add: prependM_def identityM_def)

lemma applyM_scaleAbout:
  "applyM (scaleAbout m origin a sx sy) p =
     \<lparr>px = sx * ((px (applyM m p) - px origin) * cos a + (py (applyM m p) - py origin) * sin a) * cos a
           - sy * ((py (applyM m p) - py origin) * cos a - (px (applyM m p) - px origin) * sin a) * sin a
           + px origin,
      py = sx * ((px (applyM m p) - px origin) * cos a + (py (applyM m p) - py origin) * sin a) * sin a
           + sy * ((py (applyM m p) - py origin) * cos a - (px (applyM m p) - px origin) * sin a) * cos a
           + py origin\<rparr>"
  by (simp add: scaleAbout_def applyM_translate applyM_rotate applyM_scale algebra_simps)

lemma unrotate_rotate:
  fixes x y :: real
  shows "(x * cos a + y * sin a) * cos a - (y * cos a - x * sin a) * sin a = x"
    and "(x * cos a + y * sin a) * sin a + (y * cos a - x * sin a) * cos a = y"
proof -
  have p: "cos a * cos a + sin a * sin a = 1"
    using sin_cos_squared_add2 [of a] by (simp add: power2_eq_square)
  have e1: "(x * cos a + y * sin a) * cos a - (y * cos a - x * sin a) * sin a
          = x * (cos a * cos a + sin a * sin a)"
    by (simp only: algebra_simps)
  show "(x * cos a + y * sin a) * cos a - (y * cos a - x * sin a) * sin a = x"
    unfolding e1 p by simp
  have e2: "(x * cos a + y * sin a) * sin a + (y * cos a - x * sin a) * cos a
          = y * (cos a * cos a + sin a * sin a)"
    by (simp only: algebra_simps)
  show "(x * cos a + y * sin a) * sin a + (y * cos a - x * sin a) * cos a = y"
    unfolding e2 p by simp
qed

text \<open>Scaling along the first axis keeps the points whose offset from the origin has no
  component along that axis; likewise for the second axis.\<close>

lemma scaleAbout_x_fixed:
  assumes "applyM m p = q"
    and "(px q - px origin) * cos a + (py q - py origin) * sin a = 0"
  shows "applyM (scaleAbout m origin a sx 1) p = q"
proof -
  let ?x = "px q - px origin" and ?y = "py q - py origin"
  have u: "?x * cos a + ?y * sin a = 0" using assms(2) .
  have "sx * (?x * cos a + ?y * sin a) * cos a - 1 * (?y * cos a - ?x * sin a) * sin a
          = (?x * cos a + ?y * sin a) * cos a - (?y * cos a - ?x * sin a) * sin a"
    by (simp add: u)
  then have x: "sx * (?x * cos a + ?y * sin a) * cos a - 1 * (?y * cos a - ?x * sin a) * sin a = ?x"
    by (simp only: unrotate_rotate)
  have "sx * (?x * cos a + ?y * sin a) * sin a + 1 * (?y * cos a - ?x * sin a) * cos a
          = (?x * cos a + ?y * sin a) * sin a + (?y * cos a - ?x * sin a) * cos a"
    by (simp add: u)
  then have y: "sx * (?x * cos a + ?y * sin a) * sin a + 1 * (?y * cos a - ?x * sin a) * cos a = ?y"
    by (simp only: unrotate_rotate)
  show ?thesis
    unfolding applyM_scaleAbout assms(1) x y by simp
qed

lemma scaleAbout_y_fixed:
  assumes "applyM m p = q"
    and "(py q - py origin) * cos a - (px q - px origin) * sin a = 0"
  shows "applyM (scaleAbout m origin a 1 sy) p = q"
proof -
  let ?x = "px q - px origin" and ?y = "py q - py origin"
  have v: "?y * cos a - ?x * sin a = 0" using assms(2) .
  have "1 * (?x * cos a + ?y * sin a) * cos a - sy * (?y * cos a - ?x * sin a) * sin a
          = (?x * cos a + ?y * sin a) * cos a - (?y * cos a - ?x * sin a) * sin a"
    by (simp add: v)
  then have x: "1 * (?x * cos a + ?y * sin a) * cos a - sy * (?y * cos a - ?x * sin a) * sin a = ?x"
    by (simp only: unrotate_rotate)
  have "1 * (?x * cos a + ?y * sin a) * sin a + sy * (?y * cos a - ?x * sin a) * cos a
          = (?x * cos a + ?y * sin a) * sin a + (?y * cos a - ?x * sin a) * cos a"
    by (simp add: v)
  then have y: "1 * (?x * cos a + ?y * sin a) * sin a + sy * (?y * cos a - ?x * sin a) * cos a = ?y"
    by (simp only: unrotate_rotate)
  show ?thesis
    unfolding applyM_scaleAbout assms(1) x y by simp
qed

text \<open>The corners in coordinates.\<close>

lemma applyM_hullMatrix:
  "applyM (hullMatrix b) p =
     \<lparr>px = (px p - px (center b)) * cos (rotation b) - (py p - py (center b)) * sin (rotation b)
            + px (center b),
      py = (px p - px (center b)) * sin (rotation b) + (py p - py (center b)) * cos (rotation b)
            + py (center b)\<rparr>"
  by (simp add: hullMatrix_def applyM_translate applyM_rotate applyM_identity)

lemmas corner_defs = topLeft_def topRight_def bottomLeft_def bottomRight_def applyM_hullMatrix center_def

section \<open>Claims about scaling\<close>

text \<open>
  C2: on bounds of non-zero width and height, the matrix that \<open>scaleGroup\<close> builds leaves
  the pivot where it is. Without \<open>centeredScaling\<close> the pivot is the handle position
  across the bounds from the dragged handle (the opposite corner for a corner handle, the
  middle of the opposite edge for an edge handle); with \<open>centeredScaling\<close> it is the
  centre of the bounds. A corner handle composes the two per-axis scalings, and the
  pivot is fixed by the composition.
\<close>

theorem scaleGroup_pivot_fixed:
  assumes "width (innerBounds (groupBounds t)) \<noteq> 0"
    and "height (innerBounds (groupBounds t)) \<noteq> 0"
  shows "applyM (scaleMatrix t h pointerPosition) (scalePivot t h) = scalePivot t h"
proof (cases "centeredScaling t")
  case True
  then show ?thesis
    by (cases h; simp add: scaleMatrix_def scalePivot_def Let_def applyM_identity;
        (intro scaleAbout_x_fixed scaleAbout_y_fixed applyM_identity)?; simp)
next
  case False
  then show ?thesis
    by (cases h; simp add: scaleMatrix_def scalePivot_def Let_def applyM_identity;
        (intro scaleAbout_x_fixed scaleAbout_y_fixed applyM_identity)?;
        simp add: corner_defs algebra_simps add_divide_distrib diff_divide_distrib)
qed

text \<open>C2 at the sample transformer, dragging the top-left handle: the bottom-right corner stays.\<close>

theorem scaleGroup_pivot_fixed_witness:
  "width (innerBounds (groupBounds sampleTransformer)) \<noteq> 0
   \<and> height (innerBounds (groupBounds sampleTransformer)) \<noteq> 0
   \<and> scalePivot sampleTransformer TopLeft = bottomRight (groupBounds sampleTransformer)
   \<and> applyM (scaleMatrix sampleTransformer TopLeft \<lparr>px = 10, py = 20\<rparr>)
         (bottomRight (groupBounds sampleTransformer))
       = bottomRight (groupBounds sampleTransformer)"
proof -
  have w: "width (innerBounds (groupBounds sampleTransformer)) \<noteq> 0"
    by (simp add: sampleTransformer_def)
  have h: "height (innerBounds (groupBounds sampleTransformer)) \<noteq> 0"
    by (simp add: sampleTransformer_def)
  have p: "scalePivot sampleTransformer TopLeft = bottomRight (groupBounds sampleTransformer)"
    by (simp add: scalePivot_def sampleTransformer_def)
  show ?thesis
    using w h p scaleGroup_pivot_fixed [OF w h, of TopLeft "\<lparr>px = 10, py = 20\<rparr>"] by simp
qed

lemma multiplyTransform_identity: "multiplyTransform obj identityM = obj"
  by (simp add: multiplyTransform_def prependM_identity)

lemma group_updateGroupBounds: "group (updateGroupBounds t r) = group t"
  by (simp add: updateGroupBounds_def Let_def)

lemma group_prependTransform:
  "group (prependTransform t delta skipUpdate) = map (\<lambda>obj. multiplyTransform obj delta) (group t)"
  by (simp add: prependTransform_def Let_def group_updateGroupBounds)

lemma rotation_calculateGroupOrientedBounds:
  "rotation (calculateGroupOrientedBounds grp rot) = rot"
  by (simp add: calculateGroupOrientedBounds_def setCenter_def Let_def split: prod.splits)

lemma rotation_updateGroupBounds_Some:
  "rotation (groupBounds (updateGroupBounds t (Some r))) = r"
  by (simp add: updateGroupBounds_def rotation_calculateGroupOrientedBounds)

text \<open>
  C7: for every pointer position, \<open>scaleGroup\<close> on the \<open>middleCenter\<close> handle changes no
  member of the group: both direction components of the handle are zero, the matrix it
  builds is the identity, and every member keeps its transform.
\<close>

theorem scaleGroup_middleCenter_noop:
  "SCALE_COMPONENTS MiddleCenter = (0, 0)
   \<and> scaleMatrix t MiddleCenter pointerPosition = identityM
   \<and> group (scaleGroup t MiddleCenter pointerPosition) = group t
   \<and> map worldTransform (group (scaleGroup t MiddleCenter pointerPosition))
        = map worldTransform (group t)"
proof -
  have m: "scaleMatrix t MiddleCenter pointerPosition = identityM"
    by (simp add: scaleMatrix_def Let_def)
  have g: "group (scaleGroup t MiddleCenter pointerPosition) = group t"
    by (simp add: scaleGroup_def m group_prependTransform multiplyTransform_identity)
  show ?thesis using m g by simp
qed

section \<open>Claims about the commit\<close>

text \<open>
  C9: \<open>commitGroup\<close> recomputes the group bounds at rotation 0 when \<open>transientGroupTilt\<close>
  is on and the group has more than one member; with \<open>transientGroupTilt\<close> off, or with
  at most one member, it changes nothing. It never changes a member of the group.
\<close>

theorem commitGroup_spec:
  "(transientGroupTilt t \<and> length (group t) > 1 \<longrightarrow>
      rotation (groupBounds (commitGroup t)) = 0
      \<and> groupBounds (commitGroup t) = calculateGroupOrientedBounds (group t) 0)
   \<and> (\<not> transientGroupTilt t \<or> length (group t) \<le> 1 \<longrightarrow> commitGroup t = t)
   \<and> group (commitGroup t) = group t"
  by (auto simp: commitGroup_def updateGroupBounds_def rotation_calculateGroupOrientedBounds)

text \<open>
  C9 at the sample transformer, whose two-member group has its bounds tilted by one radian,
  and at the same transformer with one member.
\<close>

theorem commitGroup_spec_witness:
  "transientGroupTilt sampleTransformer \<and> length (group sampleTransformer) > 1
   \<and> rotation (groupBounds sampleTransformer) = 1
   \<and> rotation (groupBounds (commitGroup sampleTransformer)) = 0
   \<and> length (group (sampleTransformer\<lparr>group := [sampleObject]\<rparr>)) \<le> 1
   \<and> commitGroup (sampleTransformer\<lparr>group := [sampleObject]\<rparr>)
       = sampleTransformer\<lparr>group := [sampleObject]\<rparr>"
proof -
  have a: "transientGroupTilt sampleTransformer \<and> length (group sampleTransformer) > 1"
    by (simp add: sampleTransformer_def)
  have b: "length (group (sampleTransformer\<lparr>group := [sampleObject]\<rparr>)) \<le> 1"
    by simp
  have r: "rotation (groupBounds sampleTransformer) = 1"
    by (simp add: sampleTransformer_def)
  show ?thesis
    using a b r commitGroup_spec [of sampleTransformer]
      commitGroup_spec [of "sampleTransformer\<lparr>group := [sampleObject]\<rparr>"]
    by blast
qed

lemma unrotateMinMax_fold:
  "unrotateMinMax m fs (a, b, c, d) =
     (foldl min a (map (\<lambda>f. px (applyM m f)) fs), foldl min b (map (\<lambda>f. py (applyM m f)) fs),
      foldl max c (map (\<lambda>f. px (applyM m f)) fs), foldl max d (map (\<lambda>f. py (applyM m f)) fs))"
  by (induction fs arbitrary: a b c d) (auto simp: Let_def min_def max_def)

lemma MAX_VALUE_bounds: "0 < MAX_VALUE" "\<not> MAX_VALUE < 0" "150 < MAX_VALUE" "50 < MAX_VALUE"
    "\<not> MAX_VALUE < 150" "\<not> MAX_VALUE < 50" "\<not> MAX_VALUE \<le> 0" "\<not> MAX_VALUE \<le> 150" "\<not> MAX_VALUE \<le> 50"
    by (simp_all add: MAX_VALUE_def)

text \<open>
  C8: a group of one untransformed 100 by 50 rectangle at the origin, group bounds
  (0, 0, 100, 50) at rotation 0, no centred scaling. \<open>scaleGroup\<close> on the \<open>bottomRight\<close>
  handle with the pointer at the handle position plus (50, 0) leaves group bounds of
  width 150 and height 50 whose top-left corner is (0, 0).
\<close>

theorem scaleGroup_example:
  "(let t0 = t\<lparr>group := [\<lparr>localBounds = \<lparr>rx = 0, ry = 0, width = 100, height = 50\<rparr>,
                           worldTransform = identityM\<rparr>],
                groupBounds := \<lparr>innerBounds = \<lparr>rx = 0, ry = 0, width = 100, height = 50\<rparr>,
                                rotation = 0\<rparr>,
                centeredScaling := False,
                handles := (handles t)(ScaleH BottomRight := hp)\<rparr>;
        t1 = scaleGroup t0 BottomRight \<lparr>px = px hp + 50, py = py hp + 0\<rparr>
    in width (innerBounds (groupBounds t1)) = 150
       \<and> height (innerBounds (groupBounds t1)) = 50
       \<and> topLeft (groupBounds t1) = \<lparr>px = 0, py = 0\<rparr>
       \<and> rotation (groupBounds t1) = 0)"
proof -
  let ?gb = "\<lparr>innerBounds = \<lparr>rx = 0, ry = 0, width = 100, height = 50\<rparr>, rotation = 0\<rparr>"
  let ?t0 = "t\<lparr>group := [\<lparr>localBounds = \<lparr>rx = 0, ry = 0, width = 100, height = 50\<rparr>,
                           worldTransform = identityM\<rparr>],
                groupBounds := ?gb,
                centeredScaling := False,
                handles := (handles t)(ScaleH BottomRight := hp)\<rparr>"
  let ?p = "\<lparr>px = px hp + 50, py = py hp + 0\<rparr>"
  have tl: "topLeft ?gb = \<lparr>px = 0, py = 0\<rparr>"
    by (simp add: corner_defs)
  have tr: "topRight ?gb = \<lparr>px = 100, py = 0\<rparr>"
    by (simp add: corner_defs)
  have bl: "bottomLeft ?gb = \<lparr>px = 0, py = 50\<rparr>"
    by (simp add: corner_defs)
  have m: "scaleMatrix ?t0 BottomRight ?p
             = \<lparr>ma = 3 / 2, mb = 0, mc = 0, md = 1, mtx = 0, mty = 0\<rparr>"
    by (simp add: scaleMatrix_def Let_def tl tr bl scaleAbout_def translateM_def rotateM_def
        scaleM_def identityM_def)
  let ?obj = "multiplyTransform
                \<lparr>localBounds = \<lparr>rx = 0, ry = 0, width = 100, height = 50\<rparr>,
                   worldTransform = identityM\<rparr>
                \<lparr>ma = 3 / 2, mb = 0, mc = 0, md = 1, mtx = 0, mty = 0\<rparr>"
  have frames: "calculateTransformedCorners ?obj (worldTransform ?obj)
                 = [\<lparr>px = 0, py = 0\<rparr>, \<lparr>px = 150, py = 0\<rparr>,
                    \<lparr>px = 150, py = 50\<rparr>, \<lparr>px = 0, py = 50\<rparr>]"
    by (simp add: multiplyTransform_def calculateTransformedCorners_def Let_def applyM_def
        prependM_def identityM_def)
  have unrot: "rotateM identityM (- 0) = identityM"
    by (simp add: rotateM_def identityM_def)
  have minmax: "unrotateMinMax identityM
                  [\<lparr>px = 0, py = 0\<rparr>, \<lparr>px = 150, py = 0\<rparr>,
                   \<lparr>px = 150, py = 50\<rparr>, \<lparr>px = 0, py = 50\<rparr>]
                  (MAX_VALUE, MAX_VALUE, - MAX_VALUE, - MAX_VALUE) = (0, 0, 150, 50)"
    using MAX_VALUE_bounds by (simp add: unrotateMinMax_fold applyM_identity min_def max_def)
  have inv: "applyInverseM identityM q = q" for q
    by (simp add: applyInverseM_def identityM_def)
  have cg: "calculateGroupOrientedBounds [?obj] 0
              = \<lparr>innerBounds = \<lparr>rx = 0, ry = 0, width = 150, height = 50\<rparr>, rotation = 0\<rparr>"
    unfolding calculateGroupOrientedBounds_def Let_def groupFrames.simps append_Nil2
      frames unrot minmax
    by (simp add: inv setCenter_def center_def)
  have b: "groupBounds (scaleGroup ?t0 BottomRight ?p)
             = \<lparr>innerBounds = \<lparr>rx = 0, ry = 0, width = 150, height = 50\<rparr>, rotation = 0\<rparr>"
    unfolding scaleGroup_def m prependTransform_def updateGroupBounds_def
    by (simp add: Let_def cg)
  show ?thesis
    unfolding Let_def b by (simp add: corner_defs)
qed

section \<open>Claims about rotating and skewing\<close>

lemma skew_updateGroupBounds [simp]:
  "skewX (updateGroupBounds t r) = skewX t" "skewY (updateGroupBounds t r) = skewY t"
  by (simp_all add: updateGroupBounds_def Let_def)

lemma skew_prependTransform [simp]:
  "skewX (prependTransform t m s) = skewX t" "skewY (prependTransform t m s) = skewY t"
  by (simp_all add: prependTransform_def Let_def)

lemma applyM_rotateMatrix:
  "applyM (rotateMatrix t h p) q =
     \<lparr>px = (px q - px (center (groupBounds t))) * cos (rotateDeltaAngle t h p)
            - (py q - py (center (groupBounds t))) * sin (rotateDeltaAngle t h p)
            + px (center (groupBounds t)),
      py = (px q - px (center (groupBounds t))) * sin (rotateDeltaAngle t h p)
            + (py q - py (center (groupBounds t))) * cos (rotateDeltaAngle t h p)
            + py (center (groupBounds t))\<rparr>"
  by (simp add: rotateMatrix_def Let_def applyM_translate applyM_rotate applyM_identity)

text \<open>
  C1: \<open>rotateGroup\<close> takes as candidate the rotation of the group bounds plus the
  difference of the \<open>atan2\<close> angles, about the centre of the bounds, of the pointer and of
  the rotator handle; it snaps the candidate; the matrix it applies to every member is the
  rotation by the snapped rotation minus the old rotation about the centre of the bounds;
  afterwards the rotation of the group bounds is the snapped rotation, and \<open>skewX\<close> and
  \<open>skewY\<close> have both advanced by the angle of the matrix.
\<close>

theorem rotateGroup_spec:
  "rotateNewRotation t h p =
     snapAngle
       (rotation (groupBounds t)
        + (atan2 (py p - py (center (groupBounds t))) (px p - px (center (groupBounds t)))
           - atan2 (py (handles t (RotateH h)) - py (center (groupBounds t)))
               (px (handles t (RotateH h)) - px (center (groupBounds t)))))
       (rotationSnapTolerance t) (rotationSnaps t)
   \<and> rotateDeltaAngle t h p = rotateNewRotation t h p - rotation (groupBounds t)
   \<and> ma (rotateMatrix t h p) = cos (rotateDeltaAngle t h p)
   \<and> mb (rotateMatrix t h p) = sin (rotateDeltaAngle t h p)
   \<and> mc (rotateMatrix t h p) = - sin (rotateDeltaAngle t h p)
   \<and> md (rotateMatrix t h p) = cos (rotateDeltaAngle t h p)
   \<and> applyM (rotateMatrix t h p) (center (groupBounds t)) = center (groupBounds t)
   \<and> group (rotateGroup t h p) = map (\<lambda>obj. multiplyTransform obj (rotateMatrix t h p)) (group t)
   \<and> rotation (groupBounds (rotateGroup t h p)) = rotateNewRotation t h p
   \<and> skewX (rotateGroup t h p) = skewX t + rotateDeltaAngle t h p
   \<and> skewY (rotateGroup t h p) = skewY t + rotateDeltaAngle t h p"
proof -
  have cand: "rotateNewRotation t h p =
     snapAngle
       (rotation (groupBounds t)
        + (atan2 (py p - py (center (groupBounds t))) (px p - px (center (groupBounds t)))
           - atan2 (py (handles t (RotateH h)) - py (center (groupBounds t)))
               (px (handles t (RotateH h)) - px (center (groupBounds t)))))
       (rotationSnapTolerance t) (rotationSnaps t)"
    by (simp add: rotateNewRotation_def Let_def)
  have entries: "ma (rotateMatrix t h p) = cos (rotateDeltaAngle t h p)"
    "mb (rotateMatrix t h p) = sin (rotateDeltaAngle t h p)"
    "mc (rotateMatrix t h p) = - sin (rotateDeltaAngle t h p)"
    "md (rotateMatrix t h p) = cos (rotateDeltaAngle t h p)"
    by (simp_all add: rotateMatrix_def Let_def translateM_def rotateM_def identityM_def)
  have pivot: "applyM (rotateMatrix t h p) (center (groupBounds t)) = center (groupBounds t)"
    by (simp add: applyM_rotateMatrix)
  have grp: "group (rotateGroup t h p)
               = map (\<lambda>obj. multiplyTransform obj (rotateMatrix t h p)) (group t)"
    by (simp add: rotateGroup_def Let_def group_updateGroupBounds group_prependTransform)
  have rot: "rotation (groupBounds (rotateGroup t h p)) = rotateNewRotation t h p"
    by (simp add: rotateGroup_def Let_def rotation_updateGroupBounds_Some)
  have sk: "skewX (rotateGroup t h p) = skewX t + rotateDeltaAngle t h p"
    "skewY (rotateGroup t h p) = skewY t + rotateDeltaAngle t h p"
    by (simp_all add: rotateGroup_def Let_def)
  show ?thesis
    using cand entries pivot grp rot sk by (simp add: rotateDeltaAngle_def)
qed

text \<open>
  C10: the vertical skew handle sets \<open>skewY\<close> to the snapped \<open>atan2\<close> angle of the pointer
  about the centre minus pi/2, applies to every member the shear of the old \<open>skewY\<close>
  followed by the shear of the negated new \<open>skewY\<close>, both about the centre of the bounds,
  and moves the rotation of the group bounds by the negated change of \<open>skewY\<close>. The
  horizontal skew handle sets \<open>skewX\<close> to the snapped \<open>atan2\<close> angle, applies the shear of
  the negated old \<open>skewX\<close> followed by the shear of the new one, and leaves the rotation of
  the group bounds as it is.
\<close>

theorem skewGroup_spec:
  "skewY (skewGroup hskew vskew t SkewVertical p) =
     snapAngle
       (atan2 (py p - py (center (groupBounds t))) (px p - px (center (groupBounds t))) - pi / 2)
       (skewSnapTolerance t) (skewSnaps t)
   \<and> skewX (skewGroup hskew vskew t SkewVertical p) = skewX t
   \<and> rotation (groupBounds (skewGroup hskew vskew t SkewVertical p)) =
       rotation (groupBounds t) - (skewY (skewGroup hskew vskew t SkewVertical p) - skewY t)
   \<and> group (skewGroup hskew vskew t SkewVertical p) =
       map (\<lambda>obj. multiplyTransform obj (skewMatrix hskew vskew t SkewVertical p)) (group t)
   \<and> (\<forall>q. applyM (skewMatrix hskew vskew t SkewVertical p) q =
        (let c = center (groupBounds t);
             q' = applyM (hskew (- skewY (skewGroup hskew vskew t SkewVertical p)))
                    (applyM (hskew (skewY t)) \<lparr>px = px q - px c, py = py q - py c\<rparr>)
         in \<lparr>px = px q' + px c, py = py q' + py c\<rparr>))
   \<and> skewX (skewGroup hskew vskew t SkewHorizontal p) =
       snapAngle
         (atan2 (py p - py (center (groupBounds t))) (px p - px (center (groupBounds t))))
         (skewSnapTolerance t) (skewSnaps t)
   \<and> skewY (skewGroup hskew vskew t SkewHorizontal p) = skewY t
   \<and> rotation (groupBounds (skewGroup hskew vskew t SkewHorizontal p)) = rotation (groupBounds t)
   \<and> group (skewGroup hskew vskew t SkewHorizontal p) =
       map (\<lambda>obj. multiplyTransform obj (skewMatrix hskew vskew t SkewHorizontal p)) (group t)
   \<and> (\<forall>q. applyM (skewMatrix hskew vskew t SkewHorizontal p) q =
        (let c = center (groupBounds t);
             q' = applyM (vskew (skewX (skewGroup hskew vskew t SkewHorizontal p)))
                    (applyM (vskew (- skewX t)) \<lparr>px = px q - px c, py = py q - py c\<rparr>)
         in \<lparr>px = px q' + px c, py = py q' + py c\<rparr>))"
proof -
  have v1: "skewY (skewGroup hskew vskew t SkewVertical p) =
     snapAngle
       (atan2 (py p - py (center (groupBounds t))) (px p - px (center (groupBounds t))) - pi / 2)
       (skewSnapTolerance t) (skewSnaps t)"
    by (simp add: skewGroup_def skewNewSkew_def Let_def)
  have v2: "skewX (skewGroup hskew vskew t SkewVertical p) = skewX t"
    by (simp add: skewGroup_def Let_def)
  have v3: "rotation (groupBounds (skewGroup hskew vskew t SkewVertical p)) =
       rotation (groupBounds t) - (skewY (skewGroup hskew vskew t SkewVertical p) - skewY t)"
    by (simp add: skewGroup_def Let_def rotation_updateGroupBounds_Some)
  have v4: "group (skewGroup hskew vskew t SkewVertical p) =
       map (\<lambda>obj. multiplyTransform obj (skewMatrix hskew vskew t SkewVertical p)) (group t)"
    by (simp add: skewGroup_def Let_def group_updateGroupBounds group_prependTransform)
  have v5: "applyM (skewMatrix hskew vskew t SkewVertical p) q =
        (let c = center (groupBounds t);
             q' = applyM (hskew (- skewY (skewGroup hskew vskew t SkewVertical p)))
                    (applyM (hskew (skewY t)) \<lparr>px = px q - px c, py = py q - py c\<rparr>)
         in \<lparr>px = px q' + px c, py = py q' + py c\<rparr>)" for q
    by (simp add: skewMatrix_def skewGroup_def Let_def applyM_translate applyM_prepend
        applyM_identity)
  have h1: "skewX (skewGroup hskew vskew t SkewHorizontal p) =
       snapAngle
         (atan2 (py p - py (center (groupBounds t))) (px p - px (center (groupBounds t))))
         (skewSnapTolerance t) (skewSnaps t)"
    by (simp add: skewGroup_def skewNewSkew_def Let_def)
  have h2: "skewY (skewGroup hskew vskew t SkewHorizontal p) = skewY t"
    by (simp add: skewGroup_def Let_def)
  have h3: "rotation (groupBounds (skewGroup hskew vskew t SkewHorizontal p))
              = rotation (groupBounds t)"
    by (simp add: skewGroup_def Let_def rotation_updateGroupBounds_Some)
  have h4: "group (skewGroup hskew vskew t SkewHorizontal p) =
       map (\<lambda>obj. multiplyTransform obj (skewMatrix hskew vskew t SkewHorizontal p)) (group t)"
    by (simp add: skewGroup_def Let_def group_updateGroupBounds group_prependTransform)
  have h5: "applyM (skewMatrix hskew vskew t SkewHorizontal p) q =
        (let c = center (groupBounds t);
             q' = applyM (vskew (skewX (skewGroup hskew vskew t SkewHorizontal p)))
                    (applyM (vskew (- skewX t)) \<lparr>px = px q - px c, py = py q - py c\<rparr>)
         in \<lparr>px = px q' + px c, py = py q' + py c\<rparr>)" for q
    by (simp add: skewMatrix_def skewGroup_def Let_def applyM_translate applyM_prepend
        applyM_identity)
  show ?thesis
    using v1 v2 v3 v4 v5 h1 h2 h3 h4 h5 by blast
qed

subsection \<open>The two gestures on the upright sample\<close>

lemma quarter_norm: "js_rem (pi / 2) (pi * 2) = pi / 2"
  by (intro js_rem_small) simp

lemma eighth_norm: "js_rem (pi / 4) (pi * 2) = pi / 4"
  by (intro js_rem_small) simp

lemma neg_eighth_norm: "js_rem (- (pi / 4)) (pi * 2) = - (pi / 4)"
  by (intro js_rem_small) simp

lemma snap_quarter:
  "snapAngle (pi / 2) DEFAULT_ROTATION_SNAP_TOLERANCE (Some DEFAULT_ROTATION_SNAPS) = pi / 2"
  by (simp add: snapAngle_def quarter_norm DEFAULT_ROTATION_SNAPS_def
      DEFAULT_ROTATION_SNAP_TOLERANCE_def)

lemma snap_eighth:
  "snapAngle (pi / 4) DEFAULT_SKEW_SNAP_TOLERANCE (Some DEFAULT_SKEW_SNAPS) = pi / 4"
  by (simp add: snapAngle_def eighth_norm DEFAULT_SKEW_SNAPS_def
      DEFAULT_SKEW_SNAP_TOLERANCE_def)

lemma snap_neg_eighth:
  "snapAngle (- (pi / 4)) DEFAULT_SKEW_SNAP_TOLERANCE (Some DEFAULT_SKEW_SNAPS) = - (pi / 4)"
  by (simp add: snapAngle_def neg_eighth_norm DEFAULT_SKEW_SNAPS_def
      DEFAULT_SKEW_SNAP_TOLERANCE_def)

lemma upright_fields:
  "center (groupBounds uprightTransformer) = \<lparr>px = 50, py = 25\<rparr>"
  "rotation (groupBounds uprightTransformer) = 0"
  "skewX uprightTransformer = 0"
  "skewY uprightTransformer = 0"
  "rotationSnapTolerance uprightTransformer = DEFAULT_ROTATION_SNAP_TOLERANCE"
  "rotationSnaps uprightTransformer = Some DEFAULT_ROTATION_SNAPS"
  "skewSnapTolerance uprightTransformer = DEFAULT_SKEW_SNAP_TOLERANCE"
  "skewSnaps uprightTransformer = Some DEFAULT_SKEW_SNAPS"
  "handles uprightTransformer (RotateH Rotator) = \<lparr>px = 50, py = - 7\<rparr>"
  by (simp_all add: center_def sampleTransformer_def uprightTransformer_def)

text \<open>
  C1 on the upright sample: the rotator handle is straight above the centre and the pointer
  straight to its right, a quarter turn that the default snaps keep; the bounds end at
  pi/2, both skews advance by pi/2, and the matrix is the quarter turn.
\<close>

theorem rotateGroup_spec_witness:
  "rotation (groupBounds (rotateGroup uprightTransformer Rotator \<lparr>px = 82, py = 25\<rparr>)) = pi / 2
   \<and> skewX (rotateGroup uprightTransformer Rotator \<lparr>px = 82, py = 25\<rparr>) = pi / 2
   \<and> skewY (rotateGroup uprightTransformer Rotator \<lparr>px = 82, py = 25\<rparr>) = pi / 2
   \<and> ma (rotateMatrix uprightTransformer Rotator \<lparr>px = 82, py = 25\<rparr>) = 0
   \<and> mb (rotateMatrix uprightTransformer Rotator \<lparr>px = 82, py = 25\<rparr>) = 1"
proof -
  have a: "atan2 0 32 - atan2 (- 32) 0 = pi / 2"
    by (simp add: atan2_def)
  have n: "rotateNewRotation uprightTransformer Rotator \<lparr>px = 82, py = 25\<rparr> = pi / 2"
    using rotateGroup_spec [of uprightTransformer Rotator "\<lparr>px = 82, py = 25\<rparr>"]
    by (simp add: upright_fields a snap_quarter)
  have d: "rotateDeltaAngle uprightTransformer Rotator \<lparr>px = 82, py = 25\<rparr> = pi / 2"
    using rotateGroup_spec [of uprightTransformer Rotator "\<lparr>px = 82, py = 25\<rparr>"]
    by (simp add: n upright_fields)
  show ?thesis
    using rotateGroup_spec [of uprightTransformer Rotator "\<lparr>px = 82, py = 25\<rparr>"]
    by (simp add: n d upright_fields)
qed

text \<open>
  C10 on the upright sample, the pointer on the diagonal below and right of the centre:
  the vertical handle snaps \<open>skewY\<close> to -pi/4 and tilts the bounds by pi/4, the horizontal
  handle snaps \<open>skewX\<close> to pi/4 and leaves the bounds upright.
\<close>

theorem skewGroup_spec_witness:
  "skewY (skewGroup tangentHorizontalSkew tangentVerticalSkew uprightTransformer SkewVertical
            \<lparr>px = 60, py = 35\<rparr>) = - (pi / 4)
   \<and> rotation (groupBounds
         (skewGroup tangentHorizontalSkew tangentVerticalSkew uprightTransformer SkewVertical
            \<lparr>px = 60, py = 35\<rparr>)) = pi / 4
   \<and> skewX (skewGroup tangentHorizontalSkew tangentVerticalSkew uprightTransformer SkewHorizontal
            \<lparr>px = 60, py = 35\<rparr>) = pi / 4
   \<and> rotation (groupBounds
         (skewGroup tangentHorizontalSkew tangentVerticalSkew uprightTransformer SkewHorizontal
            \<lparr>px = 60, py = 35\<rparr>)) = 0"
proof -
  have a: "atan2 10 10 = pi / 4"
    by (simp add: atan2_def arctan_one)
  have e: "pi / 4 - pi / 2 = - (pi / 4)"
    by simp
  show ?thesis
    using skewGroup_spec [of tangentHorizontalSkew tangentVerticalSkew uprightTransformer
        "\<lparr>px = 60, py = 35\<rparr>"]
    by (simp add: upright_fields a e snap_neg_eighth snap_eighth)
qed

end
